theory Spec2Isabelle
  imports Complex_Main "HOL-Library.AList"
begin

section \<open>JavaScript values\<close>

text \<open>
  A JavaScript number is a finite double, which is a real number, or NaN, or one of the
  two infinities. The comparison \<open><\<close> is false as soon as one side is NaN; \<open>a > b\<close> is
  \<open>b < a\<close>; \<open>===\<close> holds between a number and itself, NaN apart.
\<close>

datatype jsnum = Num real | NaN | Infinity | NegInfinity

fun js_lt :: "jsnum \<Rightarrow> jsnum \<Rightarrow> bool" where
  "js_lt (Num a) (Num b) = (a < b)"
| "js_lt (Num a) Infinity = True"
| "js_lt NegInfinity (Num b) = True"
| "js_lt NegInfinity Infinity = True"
| "js_lt _ _ = False"

definition js_gt :: "jsnum \<Rightarrow> jsnum \<Rightarrow> bool" where
  "js_gt a b = js_lt b a"

definition js_strict_eq :: "jsnum \<Rightarrow> jsnum \<Rightarrow> bool" where
  "js_strict_eq a b = (a = b \<and> a \<noteq> NaN)"

fun isFinite :: "jsnum \<Rightarrow> bool" where
  "isFinite (Num r) = True"
| "isFinite _ = False"

text \<open>Truthiness of a number (\<open>0\<close> and NaN are falsy) and of an optional string
  (\<open>undefined\<close> and the empty string are falsy).\<close>

fun truthy_num :: "jsnum \<Rightarrow> bool" where
  "truthy_num (Num r) = (r \<noteq> 0)"
| "truthy_num NaN = False"
| "truthy_num _ = True"

fun truthy_str :: "string option \<Rightarrow> bool" where
  "truthy_str None = False"
| "truthy_str (Some s) = (s \<noteq> [])"

text \<open>The decimal digits of an integer, with a minus sign when it is negative.\<close>

fun nat_toString :: "nat \<Rightarrow> string" where
  "nat_toString n =
     (if n < 10 then [''0123456789'' ! n]
      else nat_toString (n div 10) @ [''0123456789'' ! (n mod 10)])"

declare nat_toString.simps [simp del]

definition int_toString :: "int \<Rightarrow> string" where
  "int_toString i = (if i < 0 then CHR ''-'' # nat_toString (nat (- i)) else nat_toString (nat i))"

text \<open>\<open>Math.floor\<close>: the floor of a double is a double, so it is exact.\<close>

fun Math_floor :: "jsnum \<Rightarrow> jsnum" where
  "Math_floor (Num r) = Num (of_int \<lfloor>r\<rfloor>)"
| "Math_floor x = x"

text \<open>
  \<open>Number.prototype.toString\<close>. An integer of magnitude below \<open>2^53\<close> is printed in its
  decimal digits. Every other finite number is printed in the shortest digits that read
  back as the same double, in exponent notation from \<open>10^21\<close> on: that is left to
  \<open>engine\<close>, the printer of the JavaScript engine, a parameter.
\<close>

definition Number_toString :: "(jsnum \<Rightarrow> string) \<Rightarrow> jsnum \<Rightarrow> string" where
  "Number_toString engine x =
     (case x of
        Num r \<Rightarrow>
          if r = of_int \<lfloor>r\<rfloor> \<and> \<bar>r\<bar> < 2 ^ 53 then int_toString \<lfloor>r\<rfloor> else engine x
      | NaN \<Rightarrow> ''NaN''
      | Infinity \<Rightarrow> ''Infinity''
      | NegInfinity \<Rightarrow> ''-Infinity'')"

datatype js_error = RangeError | TypeError

datatype jsval = VNum jsnum | VStr string

section \<open>Media, as the media library hands it to the player controller\<close>

text \<open>The getters of \<open>IMedia\<close>, of its stream and of its metadata are the fields. A
  subtitle is passed on unread. The episode number is the string the title is built
  from.\<close>

typedecl subtitle

record stream =
  getFile :: string
  getDuration :: jsnum
  getEncodeId :: string
  getType :: string

record metadata =
  getSeriesTitle :: string
  getEpisodeNumber :: string
  getEpisodeTitle :: string
  getEpisodeImageUrl :: string

record media =
  getId :: string
  getStream :: stream
  getMetadata :: metadata
  getSubtitles :: "subtitle list"
  getStartTime :: "jsnum option"
  isAutoPlay :: bool
  getNextVideoUrl :: "string option"

section \<open>trackProgress\<close>

record http_request =
  req_method :: string
  req_url :: string
  req_body :: "(string \<times> jsval) list"
  req_headers :: "(string \<times> string) list"

text \<open>The one call \<open>httpClient.post(url, body, {headers})\<close> that \<open>trackProgress\<close> issues.\<close>

definition trackProgress :: "media \<Rightarrow> jsnum \<Rightarrow> jsnum \<Rightarrow> jsnum \<Rightarrow> http_request" where
  "trackProgress m currentTime elapsedTime callCount =
     (let s = getStream m in
      \<lparr> req_method = ''POST'',
        req_url = ''http://www.crunchyroll.com/ajax/'',
        req_body =
          [ (''cbcallcount'', VNum callCount),
            (''h'', VStr ''''),
            (''cbelapsed'', VNum elapsedTime),
            (''video_encode_id'', VStr (getEncodeId s)),
            (''req'', VStr ''RpcApiVideo_VideoView''),
            (''media_type'', VStr (getType s)),
            (''ht'', VStr ''0''),
            (''playhead'', VNum currentTime),
            (''media_id'', VStr (getId m)) ],
        req_headers = [(''Content-Type'', ''application/x-www-form-urlencoded'')] \<rparr>)"

section \<open>SpeedSliderComponent\<close>

record slider =
  sl_dragging :: bool
  sl_incrementValue :: jsnum
  sl_minValue :: jsnum
  sl_maxValue :: jsnum
  sl_value :: "jsnum option"

datatype slider_effect = SetSpeed jsnum

text \<open>The constructor; its argument is what \<open>props.api.getSpeed()\<close> answers. The field
  \<open>_value\<close> stays \<open>undefined\<close> when the speed is not finite.\<close>

definition SpeedSliderComponent :: "jsnum \<Rightarrow> slider" where
  "SpeedSliderComponent speed =
     \<lparr> sl_dragging = False,
       sl_incrementValue = Num 0.05,
       sl_minValue = Num 0.5,
       sl_maxValue = Num 4,
       sl_value = (if isFinite speed then Some speed else None) \<rparr>"

definition getValue :: "slider \<Rightarrow> jsnum option" where
  "getValue s = sl_value s"

definition getMinValue :: "slider \<Rightarrow> jsnum" where
  "getMinValue s = sl_minValue s"

definition getMaxValue :: "slider \<Rightarrow> jsnum" where
  "getMaxValue s = sl_maxValue s"

text \<open>\<open>this._value === value\<close>, where \<open>_value\<close> may still be \<open>undefined\<close>.\<close>

fun same_value :: "jsnum option \<Rightarrow> jsnum \<Rightarrow> bool" where
  "same_value None v = False"
| "same_value (Some w) v = js_strict_eq w v"

text \<open>\<open>_onSpeedChange\<close> stores the player's speed as it is (its repaint of the handle is
  not modelled).\<close>

definition onSpeedChange :: "jsnum \<Rightarrow> slider \<Rightarrow> slider" where
  "onSpeedChange speed s = s\<lparr>sl_value := Some speed\<rparr>"

definition setValue :: "jsnum \<Rightarrow> slider \<Rightarrow> js_error + (slider \<times> slider_effect list)" where
  "setValue v s =
     (if same_value (sl_value s) v then Inr (s, [])
      else if js_lt v (getMinValue s) \<or> js_gt v (getMaxValue s) then Inl RangeError
      else Inr (s\<lparr>sl_value := Some v\<rparr>, [SetSpeed v]))"

section \<open>PlayerController: data\<close>

record options =
  o_quality :: "string option"
  o_mediaFormat :: "string option"
  o_mediaQuality :: "string option"
  o_startTime :: "jsnum option"
  o_sizeEnabled :: "bool option"
  o_autoPlay :: "bool option"
  o_affiliateId :: "string option"

text \<open>What the controller reads of the player and its API (\<open>IPlayerApi\<close> is declared
  outside the source files at hand).\<close>

record player =
  isFullscreen :: bool
  getCurrentTime :: jsnum
  prefersPlaying :: bool

record next_video_config =
  nv_title :: string
  nv_duration :: jsnum
  nv_url :: string
  nv_thumbnailUrl :: string

text \<open>\<open>IPlayerConfig\<close>: every property is optional.\<close>

record player_config =
  c_title :: "string option"
  c_url :: "string option"
  c_duration :: "jsnum option"
  c_subtitles :: "subtitle list option"
  c_startTime :: "jsnum option"
  c_autoplay :: "bool option"
  c_thumbnailUrl :: "string option"
  c_nextVideo :: "next_video_config option"

definition empty_config :: player_config where
  "empty_config =
     \<lparr> c_title = None, c_url = None, c_duration = None, c_subtitles = None,
       c_startTime = None, c_autoplay = None, c_thumbnailUrl = None, c_nextVideo = None \<rparr>"

text \<open>The two properties of \<open>NextVideoEvent.detail\<close> that the controller reads.\<close>

record video_detail =
  d_url :: string
  d_thumbnailUrl :: string

record NextVideo =
  episodeNumber :: string
  episodeTitle :: string
  duration :: "jsnum option"
  n_url :: string
  n_thumbnailUrl :: string

text \<open>The two call shapes of the media library: a (format, quality) pair, or one quality
  preference, which is \<open>undefined\<close> when the controller has none.\<close>

datatype quality_sel = ByFormat string string | ByQuality "string option"

record media_options =
  mo_affiliateId :: "string option"
  mo_autoPlay :: "bool option"

datatype request =
    GetMedia string quality_sel string media_options
  | GetMediaByUrl string quality_sel media_options

text \<open>A video tracker is an object; the model names each one by a number of its own.\<close>

datatype effect =
    PreventDefault
  | Listen string
  | Dispose nat
  | NewVideoTracker nat media
  | LoadVideoByConfig player_config
  | CueVideoByConfig player_config
  | Await request
  | SetLocationHref string
  | SetAttribute string string string
  | ClassListAdd string string
  | ClassListRemove string string
  | InsertBefore string string string
  | AppendChild string string
  | PlayVideo bool

record controller =
  element :: string
  url :: string
  mediaId :: string
  sizeEnabled :: bool
  startTime :: "jsnum option"
  autoPlay :: "bool option"
  affiliateId :: "string option"
  quality :: "string option"
  mediaFormat :: "string option"
  mediaQuality :: "string option"
  player :: "player option"
  changedMedia :: bool
  tracking :: "nat option"

text \<open>The object \<open>parse(url, true)\<close> of the url-parse library returns: its query is an
  object of string properties, kept here in property order; \<open>components\<close> stands for its
  other properties.\<close>

record url_obj =
  components :: "(string \<times> string) list"
  query :: "(string \<times> string) list option"

section \<open>PlayerController: operations\<close>

definition PlayerController :: "string \<Rightarrow> string \<Rightarrow> string \<Rightarrow> options option \<Rightarrow> controller" where
  "PlayerController el u mid opts =
     (case opts of
        None \<Rightarrow>
          \<lparr> element = el, url = u, mediaId = mid, sizeEnabled = True, startTime = None,
            autoPlay = None, affiliateId = None, quality = None, mediaFormat = None,
            mediaQuality = None, player = None, changedMedia = False, tracking = None \<rparr>
      | Some o' \<Rightarrow>
          \<lparr> element = el, url = u, mediaId = mid,
            sizeEnabled = (o_sizeEnabled o' = Some True),
            startTime = o_startTime o',
            autoPlay = o_autoPlay o',
            affiliateId = o_affiliateId o',
            quality = (if truthy_str (o_quality o') then o_quality o' else Some ''360p''),
            mediaFormat = o_mediaFormat o',
            mediaQuality = o_mediaQuality o',
            player = None, changedMedia = False, tracking = None \<rparr>)"

text \<open>\<open>this._mediaFormat && this._mediaQuality\<close> chooses the call shape.\<close>

fun select_quality :: "string option \<Rightarrow> string option \<Rightarrow> string option \<Rightarrow> quality_sel" where
  "select_quality (Some f) (Some q) ql = (if f \<noteq> [] \<and> q \<noteq> [] then ByFormat f q else ByQuality ql)"
| "select_quality _ _ ql = ByQuality ql"

text \<open>\<open>if (this._tracking) { this._tracking.dispose(); this._tracking = undefined; }\<close>\<close>

definition dispose_tracking :: "controller \<Rightarrow> controller \<times> effect list" where
  "dispose_tracking st =
     (case tracking st of
        None \<Rightarrow> (st, [])
      | Some t \<Rightarrow> (st\<lparr>tracking := None\<rparr>, [Dispose t]))"

text \<open>The en dash of the title, as the three bytes of its UTF-8 encoding.\<close>

definition en_dash :: string where
  "en_dash = [CHR 0xE2, CHR 0x80, CHR 0x93]"

definition make_title :: "metadata \<Rightarrow> string" where
  "make_title md =
     getSeriesTitle md @ '' Episode '' @ getEpisodeNumber md @ '' '' @ en_dash @ '' '' @ getEpisodeTitle md"

text \<open>\<open>media.getStartTime() || 0\<close>\<close>

fun or_zero :: "jsnum option \<Rightarrow> jsnum" where
  "or_zero None = Num 0"
| "or_zero (Some x) = (if truthy_num x then x else Num 0)"

definition next_video_section :: "NextVideo \<Rightarrow> next_video_config" where
  "next_video_section nv =
     \<lparr> nv_title = episodeNumber nv @ '': '' @ episodeTitle nv,
       nv_duration = (case duration nv of Some d \<Rightarrow> d | None \<Rightarrow> NaN),
       nv_url = n_url nv,
       nv_thumbnailUrl = n_thumbnailUrl nv \<rparr>"

text \<open>
  Modelled from the spec: \<open>NextVideo.fromUrlUsingDocument\<close> (module \<open>../media/nextvideo\<close>)
  is not among the source files. The spec says of it that parsing may fail, and that
  malformed or absent data yields no next-video descriptor, not an error. The load step
  takes it as a parameter of this type: a function from the next-video URL to an optional
  descriptor, \<open>None\<close> being the failed parse.
\<close>

type_synonym next_video_parser = "string \<Rightarrow> NextVideo option"

definition videoConfig :: "next_video_parser \<Rightarrow> controller \<Rightarrow> media \<Rightarrow> player_config" where
  "videoConfig fromUrlUsingDocument st m =
     (let md = getMetadata m;
          s = getStream m;
          cfg = \<lparr> c_title = Some (make_title md),
                  c_url = Some (getFile s),
                  c_duration = Some (getDuration s),
                  c_subtitles = Some (getSubtitles m),
                  c_startTime = Some (case startTime st of None \<Rightarrow> or_zero (getStartTime m) | Some t \<Rightarrow> t),
                  c_autoplay = Some (case autoPlay st of None \<Rightarrow> isAutoPlay m | Some a \<Rightarrow> a),
                  c_thumbnailUrl = Some (getEpisodeImageUrl md),
                  c_nextVideo = None \<rparr>
      in case getNextVideoUrl m of
           None \<Rightarrow> cfg
         | Some nextVideoUrl \<Rightarrow>
             if nextVideoUrl = [] then cfg
             else (case fromUrlUsingDocument nextVideoUrl of
                     None \<Rightarrow> cfg
                   | Some nv \<Rightarrow> cfg\<lparr>c_nextVideo := Some (next_video_section nv)\<rparr>))"

text \<open>\<open>_loadMedia\<close>; \<open>n\<close> names the tracker that \<open>new VideoTracker\<close> creates.\<close>

definition loadMedia :: "next_video_parser \<Rightarrow> nat \<Rightarrow> media \<Rightarrow> controller \<Rightarrow> controller \<times> effect list" where
  "loadMedia fromUrlUsingDocument n m st =
     (case player st of
        None \<Rightarrow> (st, [])
      | Some p \<Rightarrow>
          (let (st1, disposed) = dispose_tracking st;
               cfg = videoConfig fromUrlUsingDocument st1 m
           in (st1\<lparr>tracking := Some n\<rparr>,
               disposed @ [NewVideoTracker n m,
                 if c_autoplay cfg = Some True then LoadVideoByConfig cfg else CueVideoByConfig cfg])))"

text \<open>\<open>_onNextVideo\<close> up to its \<open>await\<close>; what follows the \<open>await\<close> is \<open>loadMedia\<close> on the
  media the call resolves to.\<close>

definition onNextVideo :: "video_detail \<Rightarrow> controller \<Rightarrow> controller \<times> effect list" where
  "onNextVideo detail st =
     (case player st of
        None \<Rightarrow> (st, [])
      | Some p \<Rightarrow>
          if \<not> isFullscreen p then (st, [])
          else
            (let (st1, disposed) = dispose_tracking (st\<lparr>url := d_url detail, changedMedia := True\<rparr>);
                 call = GetMediaByUrl (d_url detail)
                          (select_quality (mediaFormat st1) (mediaQuality st1) (quality st1))
                          \<lparr> mo_affiliateId = affiliateId st1, mo_autoPlay = Some True \<rparr>
             in (st1,
                 [PreventDefault] @ disposed @
                 [LoadVideoByConfig (empty_config\<lparr>c_thumbnailUrl := Some (d_thumbnailUrl detail)\<rparr>),
                  Await call])))"

text \<open>\<open>_onPlayerReady\<close> up to its \<open>await\<close>.\<close>

definition onPlayerReady :: "player \<Rightarrow> controller \<Rightarrow> controller \<times> effect list" where
  "onPlayerReady p st =
     (let st1 = st\<lparr>player := Some p\<rparr>;
          call = GetMedia (mediaId st1)
                   (select_quality (mediaFormat st1) (mediaQuality st1) (quality st1))
                   (url st1)
                   \<lparr> mo_affiliateId = affiliateId st1, mo_autoPlay = autoPlay st1 \<rparr>
      in (st1, [Listen ''fullscreenchange'', Listen ''nextvideo'', Await call]))"

text \<open>\<open>_onFullscreenChange\<close>; \<open>parse\<close> and \<open>toString\<close> are the url-parse library's, and
  \<open>engine\<close> is the engine's printer of numbers.\<close>

definition onFullscreenChange :: "(string \<Rightarrow> url_obj) \<Rightarrow> (url_obj \<Rightarrow> string) \<Rightarrow> (jsnum \<Rightarrow> string) \<Rightarrow> controller \<Rightarrow> controller \<times> effect list" where
  "onFullscreenChange parse toString engine st =
     (case player st of
        None \<Rightarrow> (st, [])
      | Some p \<Rightarrow>
          if isFullscreen p then (st, [])
          else if \<not> changedMedia st then (st, [])
          else
            (let u = parse (url st);
                 q = (case query u of None \<Rightarrow> [] | Some q0 \<Rightarrow> q0);
                 q' = AList.update ''t'' (Number_toString engine (Math_floor (getCurrentTime p))) q
             in (st, [SetLocationHref (toString (u\<lparr>query := Some q'\<rparr>))])))"

text \<open>\<open>_onSizeChange\<close>. The controller's own state is not written; \<open>dom_view\<close> is what the
  three \<open>querySelector\<close> calls and the reads of \<open>parentElement\<close> and \<open>childNodes\<close> find in
  the page. A missing parent makes the first use of \<open>parentElement!\<close> throw.\<close>

record dom_view =
  found_showmedia :: bool
  found_showmedia_video :: bool
  found_main_content :: bool
  showmedia_has_parent :: bool
  main_content_empty :: bool

definition onSizeChange :: "bool \<Rightarrow> dom_view \<Rightarrow> controller \<Rightarrow> effect list \<times> js_error option" where
  "onSizeChange large page st =
     (case player st of
        None \<Rightarrow> ([], None)
      | Some p \<Rightarrow>
          if \<not> found_showmedia page \<or> \<not> found_showmedia_video page \<or> \<not> found_main_content page
          then ([], None)
          else
            (let resume = (if prefersPlaying p then [PlayVideo True] else []) in
             if large then
               (let es = [SetAttribute ''element'' ''id'' ''showmedia_video_box_wide'',
                          ClassListRemove ''element'' ''xsmall-margin-bottom'',
                          ClassListRemove ''#main_content'' ''new_layout'']
                in if \<not> showmedia_has_parent page then (es, Some TypeError)
                   else (es @
                         [ClassListAdd ''#showmedia.parentElement'' ''new_layout'',
                          ClassListAdd ''#showmedia.parentElement'' ''new_layout_wide'',
                          InsertBefore ''#showmedia.parentNode'' ''#showmedia_video'' ''#showmedia'']
                         @ resume, None))
             else
               (let es = [SetAttribute ''element'' ''id'' ''showmedia_video_box'',
                          ClassListAdd ''element'' ''xsmall-margin-bottom'']
                in if \<not> showmedia_has_parent page then (es, Some TypeError)
                   else (es @
                         [ClassListRemove ''#showmedia.parentElement'' ''new_layout'',
                          ClassListRemove ''#showmedia.parentElement'' ''new_layout_wide'',
                          ClassListAdd ''#main_content'' ''new_layout'',
                          if main_content_empty page
                          then AppendChild ''#main_content'' ''#showmedia_video''
                          else InsertBefore ''#main_content'' ''#showmedia_video'' ''#main_content.childNodes[0]'']
                         @ resume, None))))"

section \<open>The controller among its events\<close>

text \<open>
  JavaScript runs each handler to its first \<open>await\<close> without interruption; the rest of the
  handler runs when the awaited call settles. The system keeps the controller, the calls
  still in flight (oldest first), everything done so far, in order, and the number that
  names the next tracker.
\<close>

record system =
  ctrl :: controller
  pending :: "request list"
  trace :: "effect list"
  fresh :: nat

text \<open>The functions the controller takes from elsewhere.\<close>

record library =
  fromUrlUsingDocument :: next_video_parser
  parse :: "string \<Rightarrow> url_obj"
  toString :: "url_obj \<Rightarrow> string"
  numberToString :: "jsnum \<Rightarrow> string"

datatype event =
    PlayerReady player
  | PlayerChanged player
  | NextVideoEvent video_detail
  | FullscreenChange
  | SizeChange bool dom_view
  | Resolved nat media
  | Rejected nat

fun awaited :: "effect list \<Rightarrow> request list" where
  "awaited [] = []"
| "awaited (Await r # es) = r # awaited es"
| "awaited (e # es) = awaited es"

definition commit :: "controller \<times> effect list \<Rightarrow> system \<Rightarrow> system" where
  "commit r s =
     s\<lparr>ctrl := fst r, pending := pending s @ awaited (snd r), trace := trace s @ snd r\<rparr>"

definition settle :: "nat \<Rightarrow> system \<Rightarrow> system" where
  "settle i s = s\<lparr>pending := take i (pending s) @ drop (Suc i) (pending s)\<rparr>"

text \<open>
  \<open>PlayerChanged\<close> is the player changing by itself (the user toggles fullscreen, time
  passes). \<open>Resolved i m\<close> is the \<open>i\<close>-th call in flight resolving to \<open>m\<close>: both handlers
  continue with \<open>_loadMedia(media)\<close>. \<open>Rejected i\<close> is that call failing: neither handler
  catches, and nothing more of it runs.
\<close>

fun step :: "library \<Rightarrow> event \<Rightarrow> system \<Rightarrow> system" where
  "step lib (PlayerReady p) s = commit (onPlayerReady p (ctrl s)) s"
| "step lib (PlayerChanged p) s =
     (case player (ctrl s) of
        None \<Rightarrow> s
      | Some p0 \<Rightarrow> s\<lparr>ctrl := (ctrl s)\<lparr>player := Some p\<rparr>\<rparr>)"
| "step lib (NextVideoEvent d) s = commit (onNextVideo d (ctrl s)) s"
| "step lib FullscreenChange s = commit (onFullscreenChange (parse lib) (toString lib) (numberToString lib) (ctrl s)) s"
| "step lib (SizeChange large page) s = s\<lparr>trace := trace s @ fst (onSizeChange large page (ctrl s))\<rparr>"
| "step lib (Resolved i m) s =
     (if i < length (pending s)
      then (commit (loadMedia (fromUrlUsingDocument lib) (fresh s) m (ctrl s)) (settle i s))
             \<lparr>fresh := Suc (fresh s)\<rparr>
      else s)"
| "step lib (Rejected i) s = (if i < length (pending s) then settle i s else s)"

fun run :: "library \<Rightarrow> event list \<Rightarrow> system \<Rightarrow> system" where
  "run lib [] s = s"
| "run lib (e # es) s = run lib es (step lib e s)"

definition start :: "controller \<Rightarrow> system" where
  "start c = \<lparr> ctrl = c, pending = [], trace = [], fresh = 0 \<rparr>"

text \<open>The URL a call was made for.\<close>

fun origin :: "request \<Rightarrow> string" where
  "origin (GetMedia mid sel u opts) = u"
| "origin (GetMediaByUrl u sel opts) = u"

text \<open>The trackers that are created and not yet disposed after a sequence of effects.\<close>

fun track :: "nat set \<Rightarrow> effect list \<Rightarrow> nat set" where
  "track L [] = L"
| "track L (NewVideoTracker n m # es) = track (insert n L) es"
| "track L (Dispose n # es) = track (L - {n}) es"
| "track L (e # es) = track L es"

definition live :: "effect list \<Rightarrow> nat set" where
  "live es = track {} es"

text \<open>Every tracker of the sequence is created while no tracker is live.\<close>

fun exclusive :: "nat set \<Rightarrow> effect list \<Rightarrow> bool" where
  "exclusive L [] = True"
| "exclusive L (NewVideoTracker n m # es) = (L = {} \<and> exclusive {n} es)"
| "exclusive L (Dispose n # es) = exclusive (L - {n}) es"
| "exclusive L (e # es) = exclusive L es"

text \<open>Two invariants of the system: the live trackers are the controller's own tracker,
  each created while none was live; and a call is in flight only once the player is
  stored.\<close>

definition tracked :: "system \<Rightarrow> bool" where
  "tracked s = (exclusive {} (trace s) \<and> track {} (trace s) = set_option (tracking (ctrl s)))"

definition attended :: "system \<Rightarrow> bool" where
  "attended s = (pending s = [] \<or> player (ctrl s) \<noteq> None)"

section \<open>Concrete inputs\<close>

definition episode1 :: media where
  "episode1 =
     \<lparr> getId = ''M1'',
       getStream = \<lparr> getFile = ''ep1.m3u8'', getDuration = Num 1440, getEncodeId = ''e1'',
                     getType = ''anime'' \<rparr>,
       getMetadata = \<lparr> getSeriesTitle = ''Show'', getEpisodeNumber = ''1'',
                       getEpisodeTitle = ''Pilot'', getEpisodeImageUrl = ''ep1.jpg'' \<rparr>,
       getSubtitles = [], getStartTime = None, isAutoPlay = False,
       getNextVideoUrl = Some ''/ep2'' \<rparr>"

definition episode2 :: media where
  "episode2 =
     \<lparr> getId = ''M2'',
       getStream = \<lparr> getFile = ''ep2.m3u8'', getDuration = Num 1440, getEncodeId = ''e2'',
                     getType = ''anime'' \<rparr>,
       getMetadata = \<lparr> getSeriesTitle = ''Show'', getEpisodeNumber = ''2'',
                       getEpisodeTitle = ''Second'', getEpisodeImageUrl = ''ep2.jpg'' \<rparr>,
       getSubtitles = [], getStartTime = None, isAutoPlay = True,
       getNextVideoUrl = None \<rparr>"

definition episode3 :: media where
  "episode3 =
     \<lparr> getId = ''M3'',
       getStream = \<lparr> getFile = ''ep3.m3u8'', getDuration = Num 1440, getEncodeId = ''e3'',
                     getType = ''anime'' \<rparr>,
       getMetadata = \<lparr> getSeriesTitle = ''Show'', getEpisodeNumber = ''3'',
                       getEpisodeTitle = ''Third'', getEpisodeImageUrl = ''ep3.jpg'' \<rparr>,
       getSubtitles = [], getStartTime = None, isAutoPlay = True,
       getNextVideoUrl = None \<rparr>"

definition windowed :: player where
  "windowed = \<lparr> isFullscreen = False, getCurrentTime = Num 72.5, prefersPlaying = True \<rparr>"

definition immersed :: player where
  "immersed = \<lparr> isFullscreen = True, getCurrentTime = Num 0, prefersPlaying = True \<rparr>"

definition page1 :: controller where
  "page1 = PlayerController ''showmedia_video_box'' ''/ep1'' ''M1'' None"

text \<open>An options object that sets no quality.\<close>

definition autoplay_only :: options where
  "autoplay_only =
     \<lparr> o_quality = None, o_mediaFormat = None, o_mediaQuality = None, o_startTime = None,
       o_sizeEnabled = None, o_autoPlay = Some True, o_affiliateId = None \<rparr>"

definition to_ep2 :: video_detail where
  "to_ep2 = \<lparr> d_url = ''/ep2'', d_thumbnailUrl = ''ep2.jpg'' \<rparr>"

definition to_ep3 :: video_detail where
  "to_ep3 = \<lparr> d_url = ''/ep3?lang=en&t=3'', d_thumbnailUrl = ''ep3.jpg'' \<rparr>"


text \<open>
  Stand-ins for the functions taken from elsewhere, for the concrete runs: a page
  fragment that never parses, a printer of numbers that is never consulted (the runs
  print small integers only), and a URL parser and printer that know two URLs. At the
  second of them, an absolute URL whose query repeats the key \<open>a\<close>, they return what the
  url-parse library returns: its query parser does not overwrite a property it has set, so
  the parsed query holds \<open>a\<close> once, with the first value, and the printer writes the
  properties of the query in order.
\<close>

definition no_printer :: "jsnum \<Rightarrow> string" where
  "no_printer x = []"

definition no_descriptor :: next_video_parser where
  "no_descriptor u = None"

fun render_query :: "(string \<times> string) list \<Rightarrow> string" where
  "render_query [] = []"
| "render_query [(k, v)] = k @ ''='' @ v"
| "render_query ((k, v) # kvs) = k @ ''='' @ v @ ''&'' @ render_query kvs"

definition stub_parse :: "string \<Rightarrow> url_obj" where
  "stub_parse u =
     (if u = ''/ep3?lang=en&t=3''
      then \<lparr> components = [(''pathname'', ''/ep3'')],
             query = Some [(''lang'', ''en''), (''t'', ''3'')] \<rparr>
      else if u = ''http://www.crunchyroll.com/ep3?a=1&a=2''
      then \<lparr> components = [(''protocol'', ''http:''), (''slashes'', ''//''),
                           (''host'', ''www.crunchyroll.com''), (''pathname'', ''/ep3'')],
             query = Some [(''a'', ''1'')] \<rparr>
      else \<lparr> components = [(''pathname'', u)], query = Some [] \<rparr>)"

definition stub_toString :: "url_obj \<Rightarrow> string" where
  "stub_toString uo =
     concat (map snd (components uo)) @
     (case query uo of
        None \<Rightarrow> []
      | Some [] \<Rightarrow> []
      | Some (kv # kvs) \<Rightarrow> ''?'' @ render_query (kv # kvs))"

definition stub_library :: library where
  "stub_library =
     \<lparr> fromUrlUsingDocument = no_descriptor, parse = stub_parse, toString = stub_toString,
       numberToString = no_printer \<rparr>"

text \<open>The player becomes ready in fullscreen, the first episode loads, and two next-video
  events arrive before either of their calls settles.\<close>

definition two_requests :: system where
  "two_requests =
     run stub_library
       [PlayerReady immersed, Resolved 0 episode1, NextVideoEvent to_ep2, NextVideoEvent to_ep3]
       (start page1)"

text \<open>Both calls then resolve, in the order they were made, and the user leaves
  fullscreen one minute and a quarter into the third episode.\<close>

definition both_loaded :: system where
  "both_loaded =
     run stub_library [Resolved 0 episode2, Resolved 0 episode3, PlayerChanged windowed]
       two_requests"


section \<open>Facts about numbers\<close>


section \<open>Facts about the load step\<close>

lemma videoConfig_tracking [simp]:
  "videoConfig f (st\<lparr>tracking := t\<rparr>) m = videoConfig f st m"
  by (simp add: videoConfig_def)

lemma videoConfig_title:
  "c_title (videoConfig f st m) = Some (make_title (getMetadata m))"
  by (simp add: videoConfig_def Let_def split: option.splits)

lemma loadMedia_effects:
  "player st = Some p \<Longrightarrow>
   snd (loadMedia f n m st) =
     snd (dispose_tracking st) @
     [NewVideoTracker n m,
      if c_autoplay (videoConfig f st m) = Some True
      then LoadVideoByConfig (videoConfig f st m) else CueVideoByConfig (videoConfig f st m)]"
  by (simp add: loadMedia_def dispose_tracking_def Let_def split: option.splits)


section \<open>Facts about runs\<close>

lemma run_append: "run lib (xs @ ys) s = run lib ys (run lib xs s)"
  by (induction xs arbitrary: s) simp_all

lemma track_append: "track L (xs @ ys) = track (track L xs) ys"
  by (induction L xs rule: track.induct) simp_all

lemma exclusive_append: "exclusive L (xs @ ys) = (exclusive L xs \<and> exclusive (track L xs) ys)"
  by (induction L xs rule: exclusive.induct) auto

subsection \<open>The flag \<open>changedMedia\<close>\<close>

lemma onPlayerReady_changedMedia: "changedMedia (fst (onPlayerReady p c)) = changedMedia c"
  by (simp add: onPlayerReady_def Let_def)

lemma onFullscreenChange_state: "fst (onFullscreenChange prs str eng c) = c"
  by (simp add: onFullscreenChange_def Let_def split: option.splits)

lemma loadMedia_changedMedia: "changedMedia (fst (loadMedia f n m c)) = changedMedia c"
  by (simp add: loadMedia_def dispose_tracking_def Let_def split: option.splits)

lemma onNextVideo_changedMedia:
  "changedMedia (fst (onNextVideo d c)) =
     (changedMedia c \<or> (\<exists>p. player c = Some p \<and> isFullscreen p))"
  by (auto simp add: onNextVideo_def dispose_tracking_def Let_def split: option.splits)

lemma step_changedMedia:
  "changedMedia (ctrl (step lib ev s)) =
     (changedMedia (ctrl s) \<or>
      (\<exists>d p. ev = NextVideoEvent d \<and> player (ctrl s) = Some p \<and> isFullscreen p))"
  by (cases ev)
     (simp_all add: commit_def settle_def onPlayerReady_changedMedia onFullscreenChange_state
        loadMedia_changedMedia onNextVideo_changedMedia split: option.splits)

lemma run_changedMedia: "changedMedia (ctrl s) \<Longrightarrow> changedMedia (ctrl (run lib evs s))"
  by (induction evs arbitrary: s) (simp_all add: step_changedMedia)

subsection \<open>The trackers\<close>

lemma tracked_start: "tracked (start (PlayerController el u mid opts))"
  by (simp add: tracked_def start_def PlayerController_def split: option.splits)

lemma tracked_step:
  assumes "tracked s"
  shows "tracked (step lib ev s)"
proof (cases ev)
  case (PlayerReady p)
  with assms show ?thesis
    by (simp add: tracked_def commit_def onPlayerReady_def Let_def track_append exclusive_append)
next
  case (PlayerChanged p)
  with assms show ?thesis
    by (simp add: tracked_def split: option.splits)
next
  case (NextVideoEvent d)
  with assms show ?thesis
    by (auto simp add: tracked_def commit_def onNextVideo_def dispose_tracking_def Let_def
          track_append exclusive_append split: option.splits)
next
  case FullscreenChange
  with assms show ?thesis
    by (simp add: tracked_def commit_def onFullscreenChange_def Let_def
          track_append exclusive_append split: option.splits)
next
  case (SizeChange large page)
  with assms show ?thesis
    by (simp add: tracked_def onSizeChange_def Let_def track_append exclusive_append
          split: option.splits)
next
  case (Resolved i m)
  with assms show ?thesis
    by (auto simp add: tracked_def commit_def settle_def loadMedia_def dispose_tracking_def Let_def
          track_append exclusive_append split: option.splits)
next
  case (Rejected i)
  with assms show ?thesis
    by (simp add: tracked_def settle_def)
qed

lemma tracked_run: "tracked s \<Longrightarrow> tracked (run lib evs s)"
  by (induction evs arbitrary: s) (simp_all add: tracked_step)

lemma exclusive_card:
  "exclusive L es \<Longrightarrow> finite L \<Longrightarrow> card L \<le> 1 \<Longrightarrow> card (track L (take k es)) \<le> 1"
proof (induction L es arbitrary: k rule: exclusive.induct)
  case (1 L)
  then show ?case by simp
next
  case (2 L n m es)
  then show ?case by (cases k) simp_all
next
  case (3 L n es)
  have "card (L - {n}) \<le> card L" using 3 by (simp add: card_Diff1_le)
  then show ?case using 3 by (cases k) simp_all
qed (case_tac k; simp)+

lemma exclusive_create:
  "exclusive L es \<Longrightarrow> k < length es \<Longrightarrow> es ! k = NewVideoTracker n m \<Longrightarrow> track L (take k es) = {}"
proof (induction L es arbitrary: k rule: exclusive.induct)
  case (1 L)
  then show ?case by simp
next
  case (2 L n' m' es)
  then show ?case by (cases k) simp_all
next
  case (3 L n' es)
  then show ?case by (cases k) simp_all
qed (case_tac k; simp)+

subsection \<open>Calls in flight\<close>

lemma attended_start: "attended (start c)"
  by (simp add: attended_def start_def)

lemma attended_step:
  assumes "attended s"
  shows "attended (step lib ev s)"
proof (cases ev)
  case (PlayerReady p)
  then show ?thesis
    by (simp add: attended_def commit_def onPlayerReady_def Let_def)
next
  case (PlayerChanged p)
  with assms show ?thesis
    by (auto simp add: attended_def split: option.splits)
next
  case (NextVideoEvent d)
  with assms show ?thesis
    by (auto simp add: attended_def commit_def onNextVideo_def dispose_tracking_def Let_def
          split: option.splits)
next
  case FullscreenChange
  with assms show ?thesis
    by (auto simp add: attended_def commit_def onFullscreenChange_def Let_def split: option.splits)
next
  case (SizeChange large page)
  with assms show ?thesis
    by (simp add: attended_def)
next
  case (Resolved i m)
  with assms show ?thesis
    by (auto simp add: attended_def commit_def settle_def loadMedia_def dispose_tracking_def Let_def
          split: option.splits)
next
  case (Rejected i)
  with assms show ?thesis
    by (auto simp add: attended_def settle_def)
qed

lemma attended_run: "attended s \<Longrightarrow> attended (run lib evs s)"
  by (induction evs arbitrary: s) (simp_all add: attended_step)

subsection \<open>The concrete runs\<close>

lemmas scenario =
  both_loaded_def two_requests_def stub_library_def stub_parse_def stub_toString_def
  start_def page1_def PlayerController_def immersed_def windowed_def to_ep2_def to_ep3_def
  episode1_def episode2_def episode3_def no_descriptor_def commit_def settle_def
  onPlayerReady_def onNextVideo_def onFullscreenChange_def loadMedia_def dispose_tracking_def
  videoConfig_def make_title_def en_dash_def empty_config_def live_def Let_def

lemma two_requests_reached:
  "two_requests =
     run stub_library
       [PlayerReady immersed, Resolved 0 episode1, NextVideoEvent to_ep2, NextVideoEvent to_ep3]
       (start (PlayerController ''showmedia_video_box'' ''/ep1'' ''M1'' None))"
  by (simp add: two_requests_def page1_def)

lemma both_loaded_reached:
  "both_loaded =
     run stub_library
       [PlayerReady immersed, Resolved 0 episode1, NextVideoEvent to_ep2, NextVideoEvent to_ep3,
        Resolved 0 episode2, Resolved 0 episode3, PlayerChanged windowed]
       (start (PlayerController ''showmedia_video_box'' ''/ep1'' ''M1'' None))"
  by (simp add: both_loaded_def two_requests_def page1_def)

section \<open>The slider\<close>

text \<open>
  C6, as amended. For every value \<open>v\<close> other than NaN, the bounds being finite numbers,
  \<open>setValue(v)\<close> throws the range error exactly when \<open>v\<close> is not the slider's current value
  and lies outside the closed interval from \<open>minValue\<close> to \<open>maxValue\<close> (an infinity
  always does). When \<open>v\<close> is the current value the call changes nothing and issues no
  \<open>setSpeed\<close>, also when that value lies outside the interval: the comparison with the
  current value comes first. Nothing is said of \<open>setValue(NaN)\<close>.
\<close>

theorem setValue_throws_unless_current:
  "sl_minValue s = Num lo \<Longrightarrow> sl_maxValue s = Num hi \<Longrightarrow> v \<noteq> NaN \<Longrightarrow>
   (setValue v s = Inl RangeError) =
     (sl_value s \<noteq> Some v \<and> (case v of Num x \<Rightarrow> x < lo \<or> hi < x | _ \<Rightarrow> True))
   \<and> (sl_value s = Some v \<longrightarrow> setValue v s = Inr (s, []))"
proof -
  assume lo: "sl_minValue s = Num lo" and hi: "sl_maxValue s = Num hi" and v: "v \<noteq> NaN"
  have same: "same_value (sl_value s) v = (sl_value s = Some v)"
    using v by (cases "sl_value s") (auto simp add: js_strict_eq_def)
  have out: "(js_lt v (getMinValue s) \<or> js_gt v (getMaxValue s)) =
             (case v of Num x \<Rightarrow> x < lo \<or> hi < x | _ \<Rightarrow> True)"
    using v lo hi by (cases v) (simp_all add: getMinValue_def getMaxValue_def js_gt_def)
  show ?thesis
    unfolding setValue_def same out by simp
qed

theorem setValue_throws_unless_current_witness:
  "sl_minValue (SpeedSliderComponent (Num 1)) = Num (1 / 2)
   \<and> sl_maxValue (SpeedSliderComponent (Num 1)) = Num 4
   \<and> setValue (Num 5) (SpeedSliderComponent (Num 1)) = Inl RangeError
   \<and> setValue (Num (1 / 4)) (SpeedSliderComponent (Num 1)) = Inl RangeError
   \<and> setValue Infinity (SpeedSliderComponent (Num 1)) = Inl RangeError
   \<and> setValue (Num 1) (SpeedSliderComponent (Num 1)) = Inr (SpeedSliderComponent (Num 1), [])
   \<and> setValue (Num 5) (SpeedSliderComponent (Num 5)) = Inr (SpeedSliderComponent (Num 5), [])"
proof -
  have lo: "sl_minValue (SpeedSliderComponent (Num 1)) = Num (1 / 2)"
    and hi: "sl_maxValue (SpeedSliderComponent (Num 1)) = Num 4"
    and lo5: "sl_minValue (SpeedSliderComponent (Num 5)) = Num (1 / 2)"
    and hi5: "sl_maxValue (SpeedSliderComponent (Num 5)) = Num 4"
    and cur: "sl_value (SpeedSliderComponent (Num 1)) = Some (Num 1)"
    and cur5: "sl_value (SpeedSliderComponent (Num 5)) = Some (Num 5)"
    by (simp_all add: SpeedSliderComponent_def)
  have n: "Num 5 \<noteq> NaN" "Num (1 / 4) \<noteq> NaN" "Infinity \<noteq> NaN" "Num 1 \<noteq> NaN"
    by simp_all
  show ?thesis
    using lo hi cur cur5
      setValue_throws_unless_current [OF lo hi n(1)]
      setValue_throws_unless_current [OF lo hi n(2)]
      setValue_throws_unless_current [OF lo hi n(3)]
      setValue_throws_unless_current [OF lo hi n(4)]
      setValue_throws_unless_current [OF lo5 hi5 n(1)]
    by simp
qed

text \<open>
  C6 as stated fails: a slider built while the player runs at speed 5 holds the value 5,
  above its maximum 4, and \<open>setValue(5)\<close> returns without throwing.
\<close>

theorem setValue_out_of_range_counterexample:
  "js_gt (Num 5) (getMaxValue (SpeedSliderComponent (Num 5)))
   \<and> setValue (Num 5) (SpeedSliderComponent (Num 5)) = Inr (SpeedSliderComponent (Num 5), [])"
  by (simp add: setValue_def SpeedSliderComponent_def getMaxValue_def js_gt_def js_strict_eq_def)

section \<open>Progress reports\<close>

text \<open>
  C9, as amended. The report is a POST with the header
  \<open>Content-Type: application/x-www-form-urlencoded\<close>. Its body carries the call count, the
  elapsed time, the stream's encode id, the request tag, the media type, the playhead and
  the media id, taken from the arguments and the media, and two more fields that are
  constant: \<open>h\<close>, empty, and \<open>ht\<close>, \<open>0\<close>.
\<close>

theorem trackProgress_request:
  "req_method (trackProgress m currentTime elapsedTime callCount) = ''POST''
   \<and> req_headers (trackProgress m currentTime elapsedTime callCount) =
       [(''Content-Type'', ''application/x-www-form-urlencoded'')]
   \<and> req_body (trackProgress m currentTime elapsedTime callCount) =
       [ (''cbcallcount'', VNum callCount),
         (''h'', VStr []),
         (''cbelapsed'', VNum elapsedTime),
         (''video_encode_id'', VStr (getEncodeId (getStream m))),
         (''req'', VStr ''RpcApiVideo_VideoView''),
         (''media_type'', VStr (getType (getStream m))),
         (''ht'', VStr ''0''),
         (''playhead'', VNum currentTime),
         (''media_id'', VStr (getId m)) ]"
  by (simp add: trackProgress_def Let_def)

theorem trackProgress_request_witness:
  "map fst (req_body (trackProgress episode1 (Num 10) (Num 30) (Num 1))) =
     [''cbcallcount'', ''h'', ''cbelapsed'', ''video_encode_id'', ''req'', ''media_type'', ''ht'',
      ''playhead'', ''media_id'']
   \<and> map_of (req_body (trackProgress episode1 (Num 10) (Num 30) (Num 1))) ''media_id'' =
       Some (VStr ''M1'')"
  using trackProgress_request [of episode1 "Num 10" "Num 30" "Num 1"]
  by (simp add: episode1_def)

text \<open>
  C9 as stated fails: the body has nine fields, and two of them, \<open>h\<close> and \<open>ht\<close>, are none
  of the seven the claim lists.
\<close>

theorem trackProgress_fields_counterexample:
  "map_of (req_body (trackProgress episode1 (Num 10) (Num 30) (Num 1))) ''h'' = Some (VStr [])
   \<and> map_of (req_body (trackProgress episode1 (Num 10) (Num 30) (Num 1))) ''ht'' = Some (VStr ''0'')
   \<and> length (req_body (trackProgress episode1 (Num 10) (Num 30) (Num 1))) = 9"
  by (simp add: trackProgress_def Let_def)

section \<open>Construction and the first call\<close>

text \<open>
  C10. A controller built without an options argument has no quality preference; the
  default \<open>360p\<close> is set only in the branch that has an options object, where it replaces
  a missing or empty quality. The call \<open>getMedia\<close> that \<open>onPlayerReady\<close> then makes passes
  the undefined quality.
\<close>

theorem no_options_no_quality:
  "quality (PlayerController el u mid None) = None
   \<and> quality (PlayerController el u mid (Some opts)) =
       (if truthy_str (o_quality opts) then o_quality opts else Some ''360p'')
   \<and> snd (onPlayerReady p (PlayerController el u mid None)) =
       [Listen ''fullscreenchange'', Listen ''nextvideo'',
        Await (GetMedia mid (ByQuality None) u \<lparr> mo_affiliateId = None, mo_autoPlay = None \<rparr>)]"
  by (simp add: PlayerController_def onPlayerReady_def Let_def)

theorem no_options_no_quality_witness:
  "quality page1 = None
   \<and> quality (PlayerController ''showmedia_video_box'' ''/ep1'' ''M1'' (Some autoplay_only)) =
       Some ''360p''
   \<and> snd (onPlayerReady immersed page1) =
       [Listen ''fullscreenchange'', Listen ''nextvideo'',
        Await (GetMedia ''M1'' (ByQuality None) ''/ep1''
                 \<lparr> mo_affiliateId = None, mo_autoPlay = None \<rparr>)]"
  using no_options_no_quality
          [of "''showmedia_video_box''" "''/ep1''" "''M1''" autoplay_only immersed]
  by (simp add: page1_def autoplay_only_def)

section \<open>The load step\<close>

text \<open>
  C7. When the player exists (without it the load step returns at once), the load step
  ends by handing the player a configuration, by \<open>loadVideoByConfig\<close> or
  \<open>cueVideoByConfig\<close>, whose title is the series title, \<open> Episode \<close>, the episode number,
  a space, an en dash, a space, and the episode title.
\<close>

theorem loadMedia_title:
  "player st = Some p \<Longrightarrow>
   c_title (videoConfig f st m) =
     Some (getSeriesTitle (getMetadata m) @ '' Episode '' @ getEpisodeNumber (getMetadata m)
           @ '' '' @ [CHR 0xE2, CHR 0x80, CHR 0x93] @ '' '' @ getEpisodeTitle (getMetadata m))
   \<and> last (snd (loadMedia f n m st)) =
       (if c_autoplay (videoConfig f st m) = Some True
        then LoadVideoByConfig (videoConfig f st m) else CueVideoByConfig (videoConfig f st m))"
  by (simp add: loadMedia_effects videoConfig_title make_title_def en_dash_def)

theorem loadMedia_title_witness:
  "player (page1\<lparr>player := Some windowed\<rparr>) = Some windowed
   \<and> c_title (videoConfig no_descriptor (page1\<lparr>player := Some windowed\<rparr>) episode1) =
       Some (''Show Episode 1 '' @ [CHR 0xE2, CHR 0x80, CHR 0x93] @ '' Pilot'')
   \<and> last (snd (loadMedia no_descriptor 0 episode1 (page1\<lparr>player := Some windowed\<rparr>))) =
       CueVideoByConfig (videoConfig no_descriptor (page1\<lparr>player := Some windowed\<rparr>) episode1)"
proof -
  have h: "player (page1\<lparr>player := Some windowed\<rparr>) = Some windowed" by simp
  have a: "c_autoplay (videoConfig no_descriptor (page1\<lparr>player := Some windowed\<rparr>) episode1) = Some False"
    by (simp add: videoConfig_def Let_def page1_def PlayerController_def episode1_def no_descriptor_def)
  have m: "getMetadata episode1 =
             \<lparr> getSeriesTitle = ''Show'', getEpisodeNumber = ''1'',
               getEpisodeTitle = ''Pilot'', getEpisodeImageUrl = ''ep1.jpg'' \<rparr>"
    by (simp add: episode1_def)
  show ?thesis
    using h a m loadMedia_title [OF h, of no_descriptor episode1 0]
    by simp
qed



section \<open>Next video and fullscreen\<close>

text \<open>
  C3. \<open>onNextVideo\<close> acts only while the player is in fullscreen. Otherwise it leaves the
  controller as it is (so \<open>changedMedia\<close> keeps its value) and does nothing: no call to
  the media library, no \<open>preventDefault\<close>. In fullscreen it calls \<open>preventDefault\<close>, sets
  the tracked URL to the next video's, sets \<open>changedMedia\<close>, disposes the tracker if there is
  one, loads a configuration that has the next video's thumbnail and nothing else, and
  only then calls \<open>getMediaByUrl\<close>, with \<open>autoPlay: true\<close>.
\<close>

theorem onNextVideo_only_fullscreen:
  "(\<not> (\<exists>p. player st = Some p \<and> isFullscreen p) \<longrightarrow> onNextVideo d st = (st, []))
   \<and> (\<forall>p. player st = Some p \<and> isFullscreen p \<longrightarrow>
         fst (onNextVideo d st) = st\<lparr>url := d_url d, changedMedia := True, tracking := None\<rparr>
       \<and> snd (onNextVideo d st) =
           [PreventDefault] @ (case tracking st of None \<Rightarrow> [] | Some t \<Rightarrow> [Dispose t]) @
           [LoadVideoByConfig
              \<lparr> c_title = None, c_url = None, c_duration = None, c_subtitles = None,
                c_startTime = None, c_autoplay = None,
                c_thumbnailUrl = Some (d_thumbnailUrl d), c_nextVideo = None \<rparr>,
            Await (GetMediaByUrl (d_url d)
                     (select_quality (mediaFormat st) (mediaQuality st) (quality st))
                     \<lparr> mo_affiliateId = affiliateId st, mo_autoPlay = Some True \<rparr>)])"
  by (auto simp add: onNextVideo_def dispose_tracking_def empty_config_def Let_def
        split: option.splits)

theorem onNextVideo_only_fullscreen_witness:
  "onNextVideo to_ep2 (page1\<lparr>player := Some windowed\<rparr>) = (page1\<lparr>player := Some windowed\<rparr>, [])
   \<and> onNextVideo to_ep2 page1 = (page1, [])
   \<and> changedMedia (fst (onNextVideo to_ep2 (page1\<lparr>player := Some immersed, tracking := Some 0\<rparr>)))
   \<and> url (fst (onNextVideo to_ep2 (page1\<lparr>player := Some immersed, tracking := Some 0\<rparr>))) = ''/ep2''
   \<and> snd (onNextVideo to_ep2 (page1\<lparr>player := Some immersed, tracking := Some 0\<rparr>)) =
       [PreventDefault, Dispose 0,
        LoadVideoByConfig
          \<lparr> c_title = None, c_url = None, c_duration = None, c_subtitles = None,
            c_startTime = None, c_autoplay = None,
            c_thumbnailUrl = Some ''ep2.jpg'', c_nextVideo = None \<rparr>,
        Await (GetMediaByUrl ''/ep2'' (ByQuality None)
                 \<lparr> mo_affiliateId = None, mo_autoPlay = Some True \<rparr>)]"
proof -
  have w: "\<not> (\<exists>p. player (page1\<lparr>player := Some windowed\<rparr>) = Some p \<and> isFullscreen p)"
    by (simp add: windowed_def)
  have n: "\<not> (\<exists>p. player page1 = Some p \<and> isFullscreen p)"
    by (simp add: page1_def PlayerController_def)
  have f: "player (page1\<lparr>player := Some immersed, tracking := Some 0\<rparr>) = Some immersed
           \<and> isFullscreen immersed"
    by (simp add: immersed_def)
  show ?thesis
    using w n f
      onNextVideo_only_fullscreen [of "page1\<lparr>player := Some windowed\<rparr>" to_ep2]
      onNextVideo_only_fullscreen [of page1 to_ep2]
      onNextVideo_only_fullscreen [of "page1\<lparr>player := Some immersed, tracking := Some 0\<rparr>" to_ep2]
    by (simp add: to_ep2_def page1_def PlayerController_def)
qed




section \<open>Invariants of a session\<close>

text \<open>
  C4. In a controller fresh from its constructor \<open>changedMedia\<close> is false. Once it is set
  it stays set through every sequence of events. The only event that sets it is a
  next-video event that arrives while the player exists and is in fullscreen.
\<close>

theorem changedMedia_monotone:
  "\<not> changedMedia (ctrl (start (PlayerController el u mid opts)))
   \<and> (changedMedia (ctrl s) \<longrightarrow> changedMedia (ctrl (run lib evs s)))
   \<and> (\<not> changedMedia (ctrl s) \<and> changedMedia (ctrl (step lib ev s)) \<longrightarrow>
        (\<exists>d p. ev = NextVideoEvent d \<and> player (ctrl s) = Some p \<and> isFullscreen p))"
proof -
  have "\<not> changedMedia (ctrl (start (PlayerController el u mid opts)))"
    by (simp add: start_def PlayerController_def split: option.splits)
  moreover have "changedMedia (ctrl s) \<longrightarrow> changedMedia (ctrl (run lib evs s))"
    by (simp add: run_changedMedia)
  moreover have "\<not> changedMedia (ctrl s) \<and> changedMedia (ctrl (step lib ev s)) \<longrightarrow>
        (\<exists>d p. ev = NextVideoEvent d \<and> player (ctrl s) = Some p \<and> isFullscreen p)"
    unfolding step_changedMedia by blast
  ultimately show ?thesis by blast
qed

theorem changedMedia_monotone_witness:
  "\<not> changedMedia (ctrl (start page1))
   \<and> \<not> changedMedia (ctrl (run stub_library [PlayerReady immersed, Resolved 0 episode1] (start page1)))
   \<and> changedMedia (ctrl (step stub_library (NextVideoEvent to_ep2)
        (run stub_library [PlayerReady immersed, Resolved 0 episode1] (start page1))))
   \<and> player (ctrl (run stub_library [PlayerReady immersed, Resolved 0 episode1] (start page1))) =
       Some immersed
   \<and> isFullscreen immersed
   \<and> changedMedia (ctrl two_requests)
   \<and> changedMedia (ctrl (run stub_library
        [Resolved 0 episode2, Resolved 0 episode3, PlayerChanged windowed, FullscreenChange,
         SizeChange True
           \<lparr> found_showmedia = True, found_showmedia_video = True, found_main_content = True,
             showmedia_has_parent = True, main_content_empty = False \<rparr>]
        two_requests))"
proof -
  have a: "\<not> changedMedia (ctrl (run stub_library [PlayerReady immersed, Resolved 0 episode1] (start page1)))"
    by (simp add: scenario)
  have b: "changedMedia (ctrl (step stub_library (NextVideoEvent to_ep2)
        (run stub_library [PlayerReady immersed, Resolved 0 episode1] (start page1))))"
    by (simp add: scenario)
  have c: "changedMedia (ctrl two_requests)"
    by (simp add: scenario)
  have d: "player (ctrl (run stub_library [PlayerReady immersed, Resolved 0 episode1] (start page1))) =
       Some immersed \<and> isFullscreen immersed"
    by (simp add: scenario)
  show ?thesis
    using a b c d
      changedMedia_monotone
        [of "''showmedia_video_box''" "''/ep1''" "''M1''" None
            "run stub_library [PlayerReady immersed, Resolved 0 episode1] (start page1)"
            stub_library "[]" "NextVideoEvent to_ep2"]
      changedMedia_monotone
        [of "''showmedia_video_box''" "''/ep1''" "''M1''" None two_requests stub_library
            "[Resolved 0 episode2, Resolved 0 episode3, PlayerChanged windowed, FullscreenChange,
              SizeChange True
                \<lparr> found_showmedia = True, found_showmedia_video = True, found_main_content = True,
                  showmedia_has_parent = True, main_content_empty = False \<rparr>]"
            "FullscreenChange"]
    by (simp add: page1_def)
qed

text \<open>
  C5. Through every sequence of events, from the constructor on and at every point of
  the sequence of effects (also in the middle of a handler), at most one tracker is
  created and not yet disposed; and at the point where a tracker is created, none is:
  the one before it has been disposed first.
\<close>

theorem one_tracker_at_a_time:
  "(\<forall>k \<le> length (trace (run lib evs (start (PlayerController el u mid opts)))).
      card (live (take k (trace (run lib evs (start (PlayerController el u mid opts)))))) \<le> 1)
   \<and> (\<forall>k n m. k < length (trace (run lib evs (start (PlayerController el u mid opts))))
        \<and> trace (run lib evs (start (PlayerController el u mid opts))) ! k = NewVideoTracker n m
        \<longrightarrow> live (take k (trace (run lib evs (start (PlayerController el u mid opts))))) = {})"
proof -
  have "tracked (run lib evs (start (PlayerController el u mid opts)))"
    by (rule tracked_run) (rule tracked_start)
  then have ex: "exclusive {} (trace (run lib evs (start (PlayerController el u mid opts))))"
    by (simp add: tracked_def)
  show ?thesis
    using exclusive_card [OF ex] exclusive_create [OF ex]
    by (simp add: live_def)
qed

theorem one_tracker_at_a_time_witness:
  "length (trace both_loaded) = 17
   \<and> trace both_loaded ! 14 = Dispose 1
   \<and> trace both_loaded ! 15 = NewVideoTracker 2 episode3
   \<and> live (take 14 (trace both_loaded)) = {1}
   \<and> live (take 15 (trace both_loaded)) = {}
   \<and> live (take 16 (trace both_loaded)) = {2}
   \<and> card (live (take 14 (trace both_loaded))) \<le> 1"
proof -
  have l: "length (trace both_loaded) = 17" by (simp add: scenario)
  have d: "trace both_loaded ! 14 = Dispose 1" by (simp add: scenario)
  have c: "trace both_loaded ! 15 = NewVideoTracker 2 episode3" by (simp add: scenario)
  have b: "live (take 14 (trace both_loaded)) = {1}" by (simp add: scenario)
  have a: "live (take 16 (trace both_loaded)) = {2}" by (simp add: scenario)
  note t = one_tracker_at_a_time
    [of stub_library
        "[PlayerReady immersed, Resolved 0 episode1, NextVideoEvent to_ep2, NextVideoEvent to_ep3,
          Resolved 0 episode2, Resolved 0 episode3, PlayerChanged windowed]"
        "''showmedia_video_box''" "''/ep1''" "''M1''" None,
     folded both_loaded_reached]
  from t have "(15::nat) < length (trace both_loaded) \<and> trace both_loaded ! 15 = NewVideoTracker 2 episode3
      \<longrightarrow> live (take 15 (trace both_loaded)) = {}"
    by blast
  with l c have e: "live (take 15 (trace both_loaded)) = {}" by simp
  from t l have "card (live (take 14 (trace both_loaded))) \<le> 1" by simp
  with l d c b a e show ?thesis by simp
qed

section \<open>Resolutions that settle late\<close>

text \<open>
  C1, as amended. In every state the controller reaches from its constructor, a call in
  flight that resolves is passed to the load step, whatever URL the controller tracks by
  then: the tracker is replaced and the player is handed the configuration of the resolved
  media. Nothing is compared when the call settles, and no result is discarded.
\<close>

theorem every_resolution_is_loaded:
  "s = run lib evs (start (PlayerController el u mid opts)) \<Longrightarrow> i < length (pending s) \<Longrightarrow>
   trace (step lib (Resolved i m) s) =
     trace s @ snd (dispose_tracking (ctrl s)) @
     [NewVideoTracker (fresh s) m,
      if c_autoplay (videoConfig (fromUrlUsingDocument lib) (ctrl s) m) = Some True
      then LoadVideoByConfig (videoConfig (fromUrlUsingDocument lib) (ctrl s) m)
      else CueVideoByConfig (videoConfig (fromUrlUsingDocument lib) (ctrl s) m)]"
proof -
  assume s: "s = run lib evs (start (PlayerController el u mid opts))" and i: "i < length (pending s)"
  have "attended s"
    unfolding s by (rule attended_run) (rule attended_start)
  with i obtain p where p: "player (ctrl s) = Some p"
    by (auto simp add: attended_def)
  have "player (ctrl (settle i s)) = Some p" "ctrl (settle i s) = ctrl s" "trace (settle i s) = trace s"
    using p by (simp_all add: settle_def)
  then show ?thesis
    using i loadMedia_effects [OF p] by (simp add: commit_def)
qed

theorem every_resolution_is_loaded_witness:
  "(0::nat) < length (pending two_requests)
   \<and> origin (pending two_requests ! 0) = ''/ep2''
   \<and> url (ctrl two_requests) = ''/ep3?lang=en&t=3''
   \<and> trace (step stub_library (Resolved 0 episode2) two_requests) =
       trace two_requests @
       [NewVideoTracker 1 episode2,
        LoadVideoByConfig (videoConfig no_descriptor (ctrl two_requests) episode2)]"
proof -
  have i: "(0::nat) < length (pending two_requests)" by (simp add: scenario)
  have o: "origin (pending two_requests ! 0) = ''/ep2''" by (simp add: scenario)
  have u: "url (ctrl two_requests) = ''/ep3?lang=en&t=3''" by (simp add: scenario)
  have d: "snd (dispose_tracking (ctrl two_requests)) = []" by (simp add: scenario)
  have f: "fresh two_requests = 1" by (simp add: scenario)
  have l: "fromUrlUsingDocument stub_library = no_descriptor" by (simp add: stub_library_def)
  have a: "c_autoplay (videoConfig no_descriptor (ctrl two_requests) episode2) = Some True"
    by (simp add: scenario)
  show ?thesis
    using i o u d f l a every_resolution_is_loaded [OF two_requests_reached i, of episode2]
    by simp
qed

text \<open>
  C1 as stated fails: two next-video events arrive before either call settles, the
  controller tracks the URL of the second, and when the call of the first resolves its
  media is loaded onto the player all the same.
\<close>

theorem stale_resolution_counterexample:
  "origin (pending two_requests ! 0) = ''/ep2''
   \<and> url (ctrl two_requests) = ''/ep3?lang=en&t=3''
   \<and> last (trace (step stub_library (Resolved 0 episode2) two_requests)) =
       LoadVideoByConfig (videoConfig no_descriptor (ctrl two_requests) episode2)
   \<and> c_url (videoConfig no_descriptor (ctrl two_requests) episode2) = Some ''ep2.m3u8''"
  by (simp add: scenario)

end
